theory Spec2Isabelle
  imports Main "HOL-Library.Word" "HOL-Library.State_Monad" "HOL-Library.Monad_Syntax"
begin

section \<open>JavaScript strings\<close>

text \<open>
  A JavaScript string is a sequence of 16-bit code units (UTF-16); a character outside the
  Basic Multilingual Plane is a pair of surrogates, and a surrogate may also stand alone.
  \<open>lit\<close> gives the code units of a string literal whose characters are all ASCII, as
  those of the source are.
\<close>

type_synonym code_unit = "16 word"

type_synonym js_string = "code_unit list"

definition lit :: "string \<Rightarrow> js_string" where
  "lit s = map of_char s"

section \<open>Environment validator\<close>

text \<open>
  The process environment (\<^verbatim>\<open>process.env\<close>) maps a variable name to its value, a
  JavaScript string, or to nothing when the variable is not set.  A variable may be set to
  the empty string.  The names the source uses are ASCII literals.
\<close>

type_synonym process_env = "string \<rightharpoonup> js_string"

text \<open>
  Modelled from the spec: the configuration error of \<^verbatim>\<open>validateEnv\<close>
  (\<^verbatim>\<open>src/utils/validate-env.ts\<close>, imported by \<^verbatim>\<open>my-stack.ts\<close> and not among the
  source files).  The specification fixes what the error enumerates, the missing keys, and
  not the wording around them, so the error carries the enumerated key names, in the order
  of the list of required keys.
\<close>

datatype error = ConfigurationError (missing_keys: "string list")

text \<open>
  Modelled from the spec: the message of the missing validator's error names a key when
  the key is among those the error enumerates.
\<close>

definition names_key :: "error \<Rightarrow> string \<Rightarrow> bool" where
  "names_key e k = (k \<in> set (missing_keys e))"

text \<open>
  Modelled from the spec: for the missing validator a key is missing when it is absent
  from the environment or bound to the empty string.
\<close>

definition is_missing :: "process_env \<Rightarrow> string \<Rightarrow> bool" where
  "is_missing penv k = (case penv k of None \<Rightarrow> True | Some v \<Rightarrow> v = [])"

text \<open>
  Modelled from the spec: \<^verbatim>\<open>validateEnv\<close> of \<^verbatim>\<open>src/utils/validate-env.ts\<close>, which
  \<^verbatim>\<open>my-stack.ts\<close> imports and which is not among the source files.  Given the ordered
  list of required key names, each is read from the process environment.  If every key is
  present with a non-empty value, the result is the mapping from exactly those key names to
  their values (no defaulting, no coercion); otherwise the validator fails with a
  configuration error that enumerates every missing key.
\<close>

definition validateEnv :: "string list \<Rightarrow> process_env \<Rightarrow> error + (string \<rightharpoonup> js_string)" where
  "validateEnv requiredEnvs penv =
     (let missing = filter (is_missing penv) requiredEnvs
      in if missing \<noteq> [] then Inl (ConfigurationError missing)
         else Inr (penv |` set requiredEnvs))"

section \<open>JSON serialisation of the credential object\<close>

text \<open>
  \<^verbatim>\<open>JSON.stringify\<close> on an object whose property values are strings or \<^verbatim>\<open>undefined\<close>.
  A string is quoted as ECMAScript's QuoteJSONString does, code point by code point: the
  double quote and the backslash are escaped with a backslash; the control characters below
  U+0020 are written with their short escape where one exists; the other control characters
  and every surrogate that is not part of a pair are written as \<^verbatim>\<open>\uXXXX\<close> with four
  lower-case hexadecimal digits; everything else, a surrogate pair included, is copied.
  A property whose value is \<^verbatim>\<open>undefined\<close> is left out.
\<close>

definition backslash :: code_unit where
  "backslash = 0x5C"

definition dquote :: code_unit where
  "dquote = 0x22"

definition hex_digit :: "nat \<Rightarrow> code_unit" where
  "hex_digit n = lit ''0123456789abcdef'' ! (n mod 16)"

definition unicode_escape :: "code_unit \<Rightarrow> js_string" where
  "unicode_escape c =
     [backslash, 0x75, hex_digit (unat c div 4096), hex_digit (unat c div 256),
      hex_digit (unat c div 16), hex_digit (unat c)]"

definition is_high_surrogate :: "code_unit \<Rightarrow> bool" where
  "is_high_surrogate c = (0xD800 \<le> c \<and> c \<le> 0xDBFF)"

definition is_low_surrogate :: "code_unit \<Rightarrow> bool" where
  "is_low_surrogate c = (0xDC00 \<le> c \<and> c \<le> 0xDFFF)"

text \<open>The text of one code unit that is not part of a surrogate pair.\<close>

definition json_escape_unit :: "code_unit \<Rightarrow> js_string" where
  "json_escape_unit c =
     (if c = 0x08 then [backslash, 0x62]
      else if c = 0x09 then [backslash, 0x74]
      else if c = 0x0A then [backslash, 0x6E]
      else if c = 0x0C then [backslash, 0x66]
      else if c = 0x0D then [backslash, 0x72]
      else if c = dquote then [backslash, dquote]
      else if c = backslash then [backslash, backslash]
      else if c < 0x20 \<or> is_high_surrogate c \<or> is_low_surrogate c then unicode_escape c
      else [c])"

fun json_escape :: "js_string \<Rightarrow> js_string" where
  "json_escape [] = []"
| "json_escape [c] = json_escape_unit c"
| "json_escape (c # d # ds) =
     (if is_high_surrogate c \<and> is_low_surrogate d then c # d # json_escape ds
      else json_escape_unit c @ json_escape (d # ds))"

definition JSON_quote :: "js_string \<Rightarrow> js_string" where
  "JSON_quote s = dquote # json_escape s @ [dquote]"

fun join :: "js_string \<Rightarrow> js_string list \<Rightarrow> js_string" where
  "join sep [] = []"
| "join sep [x] = x"
| "join sep (x # y # ys) = x @ sep @ join sep (y # ys)"

fun JSON_property :: "string \<times> js_string option \<Rightarrow> js_string list" where
  "JSON_property (k, None) = []"
| "JSON_property (k, Some v) = [JSON_quote (lit k) @ lit '':'' @ JSON_quote v]"

definition JSON_stringify :: "(string \<times> js_string option) list \<Rightarrow> js_string" where
  "JSON_stringify obj = lit ''{'' @ join (lit '','') (concat (map JSON_property obj)) @ lit ''}''"

text \<open>
  Reading a JSON string literal back, after the grammar of JSON strings (RFC 8259,
  section 7): between the quotes a backslash starts an escape, a bare double quote or
  control character is not allowed, and any other code unit stands for itself.  It is used
  only to say what a quoted text denotes.
\<close>

definition hex_value :: "code_unit \<Rightarrow> nat option" where
  "hex_value h =
     (if 0x30 \<le> h \<and> h \<le> 0x39 then Some (unat h - 48)
      else if 0x61 \<le> h \<and> h \<le> 0x66 then Some (unat h - 87)
      else if 0x41 \<le> h \<and> h \<le> 0x46 then Some (unat h - 55)
      else None)"

definition short_escape :: "code_unit \<Rightarrow> code_unit option" where
  "short_escape e =
     (if e = 0x22 then Some 0x22
      else if e = 0x5C then Some 0x5C
      else if e = 0x2F then Some 0x2F
      else if e = 0x62 then Some 0x08
      else if e = 0x66 then Some 0x0C
      else if e = 0x6E then Some 0x0A
      else if e = 0x72 then Some 0x0D
      else if e = 0x74 then Some 0x09
      else None)"

definition hex4 :: "code_unit \<Rightarrow> code_unit \<Rightarrow> code_unit \<Rightarrow> code_unit \<Rightarrow> code_unit option" where
  "hex4 h1 h2 h3 h4 =
     (case (hex_value h1, hex_value h2, hex_value h3, hex_value h4) of
        (Some a, Some b, Some c, Some d) \<Rightarrow> Some (of_nat (((a * 16 + b) * 16 + c) * 16 + d))
      | _ \<Rightarrow> None)"

fun json_unescape :: "js_string \<Rightarrow> js_string option" where
  "json_unescape [] = Some []"
| "json_unescape (c # cs) =
     (if c = 0x5C then
        (case cs of
           [] \<Rightarrow> None
         | e # rest \<Rightarrow>
             if e = 0x75 then
               (case rest of
                  h1 # h2 # h3 # h4 # rest' \<Rightarrow>
                    (case hex4 h1 h2 h3 h4 of
                       None \<Rightarrow> None
                     | Some u \<Rightarrow> map_option ((#) u) (json_unescape rest'))
                | _ \<Rightarrow> None)
             else
               (case short_escape e of
                  None \<Rightarrow> None
                | Some u \<Rightarrow> map_option ((#) u) (json_unescape rest)))
      else if c = 0x22 \<or> c < 0x20 then None
      else map_option ((#) c) (json_unescape cs))"

declare json_unescape.simps [simp del]

definition JSON_unquote :: "js_string \<Rightarrow> js_string option" where
  "JSON_unquote t =
     (case t of
        [] \<Rightarrow> None
      | q # body \<Rightarrow>
          if q = 0x22 \<and> body \<noteq> [] \<and> last body = 0x22 then json_unescape (butlast body)
          else None)"

section \<open>The constructs of the stack\<close>

text \<open>
  A construct is created under the stack with an identifier and its properties.  Other
  constructs refer to it by its identifier; an attribute that is only known at deployment
  (an ARN) is a symbolic reference to the construct that owns it.
  The properties keep the names they have in the source; a name that several property
  types share (\<^verbatim>\<open>vpc\<close>, \<^verbatim>\<open>port\<close>, \<^verbatim>\<open>protocol\<close>, \<^verbatim>\<open>removalPolicy\<close>,
  \<^verbatim>\<open>healthCheck\<close>, \<^verbatim>\<open>name\<close>, \<^verbatim>\<open>image\<close>) is prefixed with its owner.
\<close>

datatype 'p construct = Construct (node_id: string) (props: 'p)

datatype reference = Ref (ref_target: string) (ref_attribute: string)

datatype removal_policy = DESTROY | RETAIN | SNAPSHOT | RETAIN_ON_UPDATE_OR_DELETE

datatype secret_value = UnsafePlainText js_string

record secret_props =
  secretName :: string
  secretStringValue :: secret_value
  secret_removalPolicy :: removal_policy

record vpc_lookup_options =
  isDefault :: bool

record alb_props =
  alb_vpc :: string
  internetFacing :: bool

datatype application_protocol = ApplicationProtocol_HTTP | ApplicationProtocol_HTTPS

record listener_props =
  listener_port :: nat
  listener_protocol :: application_protocol

datatype principal = ServicePrincipal string

datatype managed_policy = AwsManagedPolicyName string

record role_props =
  assumedBy :: principal
  managedPolicies :: "managed_policy list"

record cache_rule_props =
  ecrRepositoryPrefix :: string
  upstreamRegistry :: string
  upstreamRegistryUrl :: string
  credentialArn :: reference

datatype policy_principal = AWS reference

record policy_statement =
  Sid :: string
  Effect :: string
  Principal :: policy_principal
  Action :: "string list"
  Resource :: string

record policy_document =
  Version :: string
  Statement :: "policy_statement list"

record registry_policy_props =
  policyText :: policy_document

record repository_props =
  repositoryName :: string
  repository_removalPolicy :: removal_policy
  emptyOnDelete :: bool

record cluster_props =
  cluster_vpc :: string

datatype compatibility = EC2 | FARGATE | EC2_AND_FARGATE | EXTERNAL

record task_definition_props =
  compatibility :: compatibility
  cpu :: string
  memoryMiB :: string
  executionRole :: string

datatype container_image = FromEcrRepository string

datatype ecs_protocol = EcsProtocol_TCP | EcsProtocol_UDP

record port_mapping =
  containerPort :: nat
  hostPort :: nat
  mapping_protocol :: ecs_protocol
  mapping_name :: string

datatype duration = Seconds nat

record container_health_check =
  command :: "string list"
  startPeriod :: duration

datatype retention_days = ONE_DAY | THREE_DAYS | FIVE_DAYS | ONE_WEEK | TWO_WEEKS | ONE_MONTH

record aws_logs_props =
  streamPrefix :: string
  logRetention :: retention_days

datatype log_driver = AwsLogs aws_logs_props

record container_props =
  containerImage :: container_image
  portMappings :: "port_mapping list"
  container_healthCheck :: container_health_check
  logging :: log_driver

record service_props =
  cluster :: string
  taskDefinition :: string
  desiredCount :: nat
  assignPublicIp :: bool

record load_balancer_target_options =
  containerName :: string
  target_containerPort :: nat
  target_protocol :: ecs_protocol

datatype load_balancer_target = LoadBalancerTarget string load_balancer_target_options

datatype elb_protocol = Protocol_HTTP | Protocol_HTTPS | Protocol_TCP | Protocol_TLS
  | Protocol_UDP | Protocol_TCP_UDP

record target_health_check =
  path :: string
  health_port :: string
  health_protocol :: elb_protocol
  healthyHttpCodes :: string

record add_targets_props =
  targets_port :: nat
  targets_protocol :: application_protocol
  targets :: "load_balancer_target list"
  targets_healthCheck :: target_health_check

text \<open>
  An inbound rule of a security group: the construct whose security group it belongs to,
  the peer it admits, the port and a description.  The peer is another construct's
  security group or the whole address space; a rule is unrestricted when its peer is the
  whole address space.
\<close>

datatype peer = Connectable string | AnyIpv4 | AnyIpv6

datatype port = Tcp nat | Udp nat | AllTcp | AllTraffic

record ingress_rule =
  rule_service :: string
  rule_peer :: peer
  rule_port :: port
  rule_description :: string

text \<open>
  What a statement of the constructor adds to the stack.  A listener, a container and a
  target group are created through a method of the construct that owns them; the owner's
  identifier comes first.  \<open>SecurityGroupIngress\<close> is the rule a call of
  \<^verbatim>\<open>allowFrom\<close> asks for.
\<close>

datatype decl =
    Secret "secret_props construct"
  | VpcLookup "vpc_lookup_options construct"
  | ApplicationLoadBalancer "alb_props construct"
  | ApplicationListener string "listener_props construct"
  | Role "role_props construct"
  | CfnPullThroughCacheRule "cache_rule_props construct"
  | CfnRegistryPolicy "registry_policy_props construct"
  | Repository "repository_props construct"
  | Cluster "cluster_props construct"
  | TaskDefinition "task_definition_props construct"
  | ContainerDefinition string "container_props construct"
  | FargateService "service_props construct"
  | Dependency string string
  | ApplicationTargetGroup string "add_targets_props construct"
  | SecurityGroupIngress ingress_rule

record stack_env =
  env_account :: string
  env_region :: string

record stack =
  stack_id :: string
  account :: string
  region :: string
  children :: "decl list"
  ingress_rules :: "ingress_rule list"

section \<open>Operations on the stack\<close>

text \<open>
  The constructor runs its statements one after the other on the stack under construction;
  each creation appends a declaration to the stack's children and returns the construct.
  Beside its children the stack holds the inbound rules of its security groups, which the
  library fills in as listeners, targets and connections are added.
\<close>

definition Stack :: "string \<Rightarrow> stack_env \<Rightarrow> stack" where
  "Stack ident env = \<lparr>stack_id = ident, account = env_account env, region = env_region env,
     children = [], ingress_rules = []\<rparr>"

definition addChild :: "decl \<Rightarrow> (stack, unit) state" where
  "addChild d = State_Monad.update (\<lambda>this. this\<lparr>children := children this @ [d]\<rparr>)"

definition new :: "('p construct \<Rightarrow> decl) \<Rightarrow> string \<Rightarrow> 'p \<Rightarrow> (stack, 'p construct) state" where
  "new ctor ident p = do {
     addChild (ctor (Construct ident p));
     State_Monad.return (Construct ident p)
   }"

definition Vpc_fromLookup ::
  "string \<Rightarrow> vpc_lookup_options \<Rightarrow> (stack, vpc_lookup_options construct) state" where
  "Vpc_fromLookup ident options = new VpcLookup ident options"

definition secretArn :: "secret_props construct \<Rightarrow> reference" where
  "secretArn s = Ref (node_id s) ''secretArn''"

definition roleArn :: "role_props construct \<Rightarrow> reference" where
  "roleArn r = Ref (node_id r) ''roleArn''"

text \<open>
  The inbound rules of the security groups.  \<^verbatim>\<open>aws-cdk-lib\<close> (version 2.182.0 by
  \<^verbatim>\<open>.projenrc.ts\<close>) adds a rule to a construct's security group unless the group
  already has a rule for the same peer and port, whatever the description.
\<close>

definition same_connection :: "ingress_rule \<Rightarrow> ingress_rule \<Rightarrow> bool" where
  "same_connection r r' =
     (rule_service r = rule_service r' \<and> rule_peer r = rule_peer r' \<and> rule_port r = rule_port r')"

definition add_ingress :: "ingress_rule \<Rightarrow> stack \<Rightarrow> stack" where
  "add_ingress r this =
     (if filter (same_connection r) (ingress_rules this) = []
      then this\<lparr>ingress_rules := ingress_rules this @ [r]\<rparr>
      else this)"

definition addIngressRule :: "ingress_rule \<Rightarrow> (stack, unit) state" where
  "addIngressRule r = State_Monad.update (add_ingress r)"

text \<open>A number in decimal, as a template literal of the library writes it.\<close>

fun decimal :: "nat \<Rightarrow> string" where
  "decimal n =
     (if n < 10 then [''0123456789'' ! n]
      else decimal (n div 10) @ [''0123456789'' ! (n mod 10)])"

declare decimal.simps [simp del]

text \<open>
  \<^verbatim>\<open>loadBalancer.addListener(id, props)\<close> creates the listener.  The source does not
  set \<^verbatim>\<open>open\<close>, which defaults to true: the library then opens the load balancer's
  security group to every IPv4 address on the listener's port.
\<close>

definition addListener ::
  "alb_props construct \<Rightarrow> string \<Rightarrow> listener_props \<Rightarrow> (stack, listener_props construct) state" where
  "addListener lb ident p = do {
     listener \<leftarrow> new (ApplicationListener (node_id lb)) ident p;
     addIngressRule \<lparr>rule_service = node_id lb, rule_peer = AnyIpv4,
       rule_port = Tcp (listener_port p),
       rule_description = ''Allow from anyone on port '' @ decimal (listener_port p)\<rparr>;
     State_Monad.return listener
   }"

definition addContainer ::
  "task_definition_props construct \<Rightarrow> string \<Rightarrow> container_props
     \<Rightarrow> (stack, container_props construct) state" where
  "addContainer td ident p = new (ContainerDefinition (node_id td)) ident p"

definition addDependency :: "'a construct \<Rightarrow> 'b construct \<Rightarrow> (stack, unit) state" where
  "addDependency dependent dependency = addChild (Dependency (node_id dependent) (node_id dependency))"

definition loadBalancerTarget ::
  "service_props construct \<Rightarrow> load_balancer_target_options \<Rightarrow> load_balancer_target" where
  "loadBalancerTarget service options = LoadBalancerTarget (node_id service) options"

text \<open>
  \<^verbatim>\<open>listener.addTargets(id, props)\<close> creates the target group, named \<^verbatim>\<open>id + "Group"\<close>,
  and registers each target with the listener: the library lets the listener's load
  balancer into the target's security group on the target's port, with the description
  \<^verbatim>\<open>Load balancer to target\<close>.  A Fargate task has its own network interface, so the
  target's port is its container port.
\<close>

definition target_port :: "load_balancer_target_options \<Rightarrow> port" where
  "target_port options =
     (case target_protocol options of
        EcsProtocol_TCP \<Rightarrow> Tcp (target_containerPort options)
      | EcsProtocol_UDP \<Rightarrow> Udp (target_containerPort options))"

definition load_balancer_of :: "stack \<Rightarrow> listener_props construct \<Rightarrow> string list" where
  "load_balancer_of this listener =
     concat (map (\<lambda>d. case d of
         ApplicationListener owner c \<Rightarrow> if node_id c = node_id listener then [owner] else []
       | _ \<Rightarrow> []) (children this))"

fun target_rule :: "string \<Rightarrow> load_balancer_target \<Rightarrow> ingress_rule" where
  "target_rule lb (LoadBalancerTarget service options) =
     \<lparr>rule_service = service, rule_peer = Connectable lb, rule_port = target_port options,
      rule_description = ''Load balancer to target''\<rparr>"

definition addTargets ::
  "listener_props construct \<Rightarrow> string \<Rightarrow> add_targets_props
     \<Rightarrow> (stack, add_targets_props construct) state" where
  "addTargets listener ident p = do {
     group \<leftarrow> new (ApplicationTargetGroup (node_id listener)) (ident @ ''Group'') p;
     this \<leftarrow> State_Monad.get;
     State_Monad.update (fold add_ingress
       (concat (map (\<lambda>lb. map (target_rule lb) (targets p)) (load_balancer_of this listener))));
     State_Monad.return group
   }"

text \<open>
  \<^verbatim>\<open>service.connections.allowFrom(other, portRange, description)\<close>: the statement is
  recorded as the source makes it, and the rule goes to the service's security group
  under the library's condition above.  \<open>other\<close> is anything connectable: a construct
  with a security group, as here, or an address range.
\<close>

definition connectable :: "'a construct \<Rightarrow> peer" where
  "connectable c = Connectable (node_id c)"

definition allowFrom ::
  "service_props construct \<Rightarrow> peer \<Rightarrow> port \<Rightarrow> string \<Rightarrow> (stack, unit) state" where
  "allowFrom service other portRange description = do {
     addChild (SecurityGroupIngress \<lparr>rule_service = node_id service,
       rule_peer = other, rule_port = portRange, rule_description = description\<rparr>);
     addIngressRule \<lparr>rule_service = node_id service,
       rule_peer = other, rule_port = portRange, rule_description = description\<rparr>
   }"

section \<open>The stack assembler\<close>

definition ECR_PULL_THROUGH_CACHE_PREFIX :: string where
  "ECR_PULL_THROUGH_CACHE_PREFIX = ''ecr-pullthroughcache/''"

text \<open>
  The body of the constructor of \<^verbatim>\<open>MyStack\<close>, statement by statement.  \<open>env\<close> is the
  module-level record returned by the validator; reading a property it does not have
  gives \<^verbatim>\<open>undefined\<close> (\<open>None\<close>).
\<close>

definition MyStack_body :: "(string \<rightharpoonup> js_string) \<Rightarrow> (stack, unit) state" where
  "MyStack_body env = do {
     dhCacheRuleSecret \<leftarrow> new Secret ''DhCacheRuleSecret'' \<lparr>
       secretName = ECR_PULL_THROUGH_CACHE_PREFIX @ ''dockerhub'',
       secretStringValue = UnsafePlainText (JSON_stringify
         [(''username'', env ''DOCKERHUB_USERNAME''),
          (''accessToken'', env ''DOCKERHUB_ACCESS_TOKEN'')]),
       secret_removalPolicy = DESTROY\<rparr>;

     defaultVpc \<leftarrow> Vpc_fromLookup ''DefaultVpc'' \<lparr>isDefault = True\<rparr>;

     nginxAlb \<leftarrow> new ApplicationLoadBalancer ''NginxAlb'' \<lparr>
       alb_vpc = node_id defaultVpc,
       internetFacing = True\<rparr>;

     nginxAlbHttpListener \<leftarrow> addListener nginxAlb ''NginxAlbHttpListener'' \<lparr>
       listener_port = 80,
       listener_protocol = ApplicationProtocol_HTTP\<rparr>;

     ecsTaskExecutionRole \<leftarrow> new Role ''EcsTaskExecutionRole'' \<lparr>
       assumedBy = ServicePrincipal ''ecs-tasks.amazonaws.com'',
       managedPolicies = [AwsManagedPolicyName ''service-role/AmazonECSTaskExecutionRolePolicy'']\<rparr>;

     dhCacheRule \<leftarrow> new CfnPullThroughCacheRule ''DhCacheRule'' \<lparr>
       ecrRepositoryPrefix = ''dockerhub'',
       upstreamRegistry = ''docker-hub'',
       upstreamRegistryUrl = ''registry-1.docker.io'',
       credentialArn = secretArn dhCacheRuleSecret\<rparr>;

     this \<leftarrow> State_Monad.get;
     dhCacheRegistryPolicy \<leftarrow> new CfnRegistryPolicy ''DhCacheRegistryPolicy'' \<lparr>
       policyText = \<lparr>
         Version = ''2012-10-17'',
         Statement = [\<lparr>
           Sid = ''AllowDockerhubCache'',
           Effect = ''Allow'',
           Principal = AWS (roleArn ecsTaskExecutionRole),
           Action = [''ecr:CreateRepository'', ''ecr:BatchImportUpstreamImage''],
           Resource = ''arn:aws:ecr:'' @ region this @ '':'' @ account this @ '':repository/''
             @ ecrRepositoryPrefix (props dhCacheRule) @ ''/*''\<rparr>]\<rparr>\<rparr>;

     ecrNginxRepo \<leftarrow> new Repository ''EcrNginxRepo'' \<lparr>
       repositoryName = ecrRepositoryPrefix (props dhCacheRule) @ ''/library/nginx'',
       repository_removalPolicy = DESTROY,
       emptyOnDelete = True\<rparr>;

     ecsCluster \<leftarrow> new Cluster ''EcsCluster'' \<lparr>cluster_vpc = node_id defaultVpc\<rparr>;

     ecsTaskDefinition \<leftarrow> new TaskDefinition ''EcsTaskDefinition'' \<lparr>
       compatibility = FARGATE,
       cpu = ''512'',
       memoryMiB = ''1024'',
       executionRole = node_id ecsTaskExecutionRole\<rparr>;

     _ \<leftarrow> addContainer ecsTaskDefinition ''nginx'' \<lparr>
       containerImage = FromEcrRepository (node_id ecrNginxRepo),
       portMappings = [\<lparr>
         containerPort = 80,
         hostPort = 80,
         mapping_protocol = EcsProtocol_TCP,
         mapping_name = ''http''\<rparr>],
       container_healthCheck = \<lparr>
         command = [''CMD-SHELL'', ''curl -f http://localhost/ || exit 1''],
         startPeriod = Seconds 10\<rparr>,
       logging = AwsLogs \<lparr>
         streamPrefix = ''/ecs/nginx'',
         logRetention = ONE_WEEK\<rparr>\<rparr>;

     nginxService \<leftarrow> new FargateService ''NginxService'' \<lparr>
       cluster = node_id ecsCluster,
       taskDefinition = node_id ecsTaskDefinition,
       desiredCount = 2,
       assignPublicIp = True\<rparr>;

     addDependency nginxService dhCacheRegistryPolicy;

     let httpTarget = loadBalancerTarget nginxService \<lparr>
       containerName = ''nginx'',
       target_containerPort = 80,
       target_protocol = EcsProtocol_TCP\<rparr>;

     _ \<leftarrow> addTargets nginxAlbHttpListener ''HttpTarget'' \<lparr>
       targets_port = 80,
       targets_protocol = ApplicationProtocol_HTTP,
       targets = [httpTarget],
       targets_healthCheck = \<lparr>
         path = ''/'',
         health_port = ''80'',
         health_protocol = Protocol_HTTP,
         healthyHttpCodes = ''200''\<rparr>\<rparr>;

     allowFrom nginxService (connectable nginxAlb) (Tcp 80)
       ''Allow ALB to access Nginx HTTP endpoint''
   }"

text \<open>
  \<^verbatim>\<open>new MyStack(scope, id, props)\<close>: the base constructor sets up the empty stack, then
  the body runs.  The result is the stack with its declarations in the order made and
  the inbound rules of its security groups.
\<close>

definition MyStack :: "(string \<rightharpoonup> js_string) \<Rightarrow> string \<Rightarrow> stack_env \<Rightarrow> stack" where
  "MyStack env ident stack_props = snd (run_state (MyStack_body env) (Stack ident stack_props))"

text \<open>
  The module \<^verbatim>\<open>my-stack.ts\<close>: the required variables are validated when the module is
  loaded, before the class exists; an error there leaves nothing to instantiate.
\<close>

definition REQUIRED_ENVS :: "string list" where
  "REQUIRED_ENVS = [''DOCKERHUB_USERNAME'', ''DOCKERHUB_ACCESS_TOKEN'']"

definition load_and_instantiate :: "process_env \<Rightarrow> string \<Rightarrow> stack_env \<Rightarrow> error + stack" where
  "load_and_instantiate penv ident stack_props =
     (case validateEnv REQUIRED_ENVS penv of
        Inl e \<Rightarrow> Inl e
      | Inr env \<Rightarrow> Inr (MyStack env ident stack_props))"

section \<open>Reading an assembled stack\<close>

text \<open>The constructs of each kind, in the order declared.\<close>

definition secrets :: "stack \<Rightarrow> secret_props construct list" where
  "secrets st = concat (map (\<lambda>d. case d of Secret c \<Rightarrow> [c] | _ \<Rightarrow> []) (children st))"

definition load_balancers :: "stack \<Rightarrow> alb_props construct list" where
  "load_balancers st =
     concat (map (\<lambda>d. case d of ApplicationLoadBalancer c \<Rightarrow> [c] | _ \<Rightarrow> []) (children st))"

definition roles :: "stack \<Rightarrow> role_props construct list" where
  "roles st = concat (map (\<lambda>d. case d of Role c \<Rightarrow> [c] | _ \<Rightarrow> []) (children st))"

definition cache_rules :: "stack \<Rightarrow> cache_rule_props construct list" where
  "cache_rules st =
     concat (map (\<lambda>d. case d of CfnPullThroughCacheRule c \<Rightarrow> [c] | _ \<Rightarrow> []) (children st))"

definition registry_policies :: "stack \<Rightarrow> registry_policy_props construct list" where
  "registry_policies st =
     concat (map (\<lambda>d. case d of CfnRegistryPolicy c \<Rightarrow> [c] | _ \<Rightarrow> []) (children st))"

definition repositories :: "stack \<Rightarrow> repository_props construct list" where
  "repositories st = concat (map (\<lambda>d. case d of Repository c \<Rightarrow> [c] | _ \<Rightarrow> []) (children st))"

definition task_definitions :: "stack \<Rightarrow> task_definition_props construct list" where
  "task_definitions st =
     concat (map (\<lambda>d. case d of TaskDefinition c \<Rightarrow> [c] | _ \<Rightarrow> []) (children st))"

definition containers :: "stack \<Rightarrow> (string \<times> container_props construct) list" where
  "containers st =
     concat (map (\<lambda>d. case d of ContainerDefinition owner c \<Rightarrow> [(owner, c)] | _ \<Rightarrow> [])
       (children st))"

definition services :: "stack \<Rightarrow> service_props construct list" where
  "services st = concat (map (\<lambda>d. case d of FargateService c \<Rightarrow> [c] | _ \<Rightarrow> []) (children st))"

text \<open>The explicit ordering edges: (dependent, dependency).\<close>

definition dependencies :: "stack \<Rightarrow> (string \<times> string) list" where
  "dependencies st =
     concat (map (\<lambda>d. case d of Dependency a b \<Rightarrow> [(a, b)] | _ \<Rightarrow> []) (children st))"

text \<open>
  The inbound rules the statements of the source ask for, and when a rule is open to every
  address.
\<close>

definition declared_ingress_rules :: "stack \<Rightarrow> ingress_rule list" where
  "declared_ingress_rules st =
     concat (map (\<lambda>d. case d of SecurityGroupIngress r \<Rightarrow> [r] | _ \<Rightarrow> []) (children st))"

fun unrestricted_peer :: "peer \<Rightarrow> bool" where
  "unrestricted_peer (Connectable c) = False"
| "unrestricted_peer AnyIpv4 = True"
| "unrestricted_peer AnyIpv6 = True"

definition unrestricted :: "ingress_rule \<Rightarrow> bool" where
  "unrestricted r = unrestricted_peer (rule_peer r)"

text \<open>
  The data references of a declaration, as edges (referring construct, referred construct):
  the constructs and attributes of other constructs that its properties mention.  A
  container's references are its task definition's; an explicit dependency is not a data
  reference.
\<close>

fun references :: "decl \<Rightarrow> (string \<times> string) list" where
  "references (Secret c) = []"
| "references (VpcLookup c) = []"
| "references (ApplicationLoadBalancer c) = [(node_id c, alb_vpc (props c))]"
| "references (ApplicationListener owner c) = [(node_id c, owner)]"
| "references (Role c) = []"
| "references (CfnPullThroughCacheRule c) = [(node_id c, ref_target (credentialArn (props c)))]"
| "references (CfnRegistryPolicy c) =
     map (\<lambda>s. case Principal s of AWS r \<Rightarrow> (node_id c, ref_target r))
       (Statement (policyText (props c)))"
| "references (Repository c) = []"
| "references (Cluster c) = [(node_id c, cluster_vpc (props c))]"
| "references (TaskDefinition c) = [(node_id c, executionRole (props c))]"
| "references (ContainerDefinition owner c) =
     [(owner, case containerImage (props c) of FromEcrRepository r \<Rightarrow> r)]"
| "references (FargateService c) =
     [(node_id c, cluster (props c)), (node_id c, taskDefinition (props c))]"
| "references (Dependency a b) = []"
| "references (ApplicationTargetGroup owner c) =
     (node_id c, owner) #
     map (\<lambda>t. case t of LoadBalancerTarget s options \<Rightarrow> (node_id c, s)) (targets (props c))"
| "references (SecurityGroupIngress r) =
     (case rule_peer r of Connectable p \<Rightarrow> [(rule_service r, p)] | _ \<Rightarrow> [])"

definition reference_edges :: "stack \<Rightarrow> (string \<times> string) list" where
  "reference_edges st = concat (map references (children st))"

text \<open>
  The stages of the assembly named by the specification, and the stage each resource
  declaration belongs to: a listener belongs to its load balancer and a container to its
  task definition.  An explicit dependency declares no resource.
\<close>

datatype stage = SecretStage | NetworkLookupStage | LoadBalancerStage | IamRoleStage
  | CacheRuleStage | RegistryPolicyStage | RepositoryStage | ClusterStage
  | TaskDefinitionStage | ServiceStage | TargetGroupStage | SecurityRuleStage

fun stage_of :: "decl \<Rightarrow> stage list" where
  "stage_of (Secret c) = [SecretStage]"
| "stage_of (VpcLookup c) = [NetworkLookupStage]"
| "stage_of (ApplicationLoadBalancer c) = [LoadBalancerStage]"
| "stage_of (ApplicationListener owner c) = [LoadBalancerStage]"
| "stage_of (Role c) = [IamRoleStage]"
| "stage_of (CfnPullThroughCacheRule c) = [CacheRuleStage]"
| "stage_of (CfnRegistryPolicy c) = [RegistryPolicyStage]"
| "stage_of (Repository c) = [RepositoryStage]"
| "stage_of (Cluster c) = [ClusterStage]"
| "stage_of (TaskDefinition c) = [TaskDefinitionStage]"
| "stage_of (ContainerDefinition owner c) = [TaskDefinitionStage]"
| "stage_of (FargateService c) = [ServiceStage]"
| "stage_of (Dependency a b) = []"
| "stage_of (ApplicationTargetGroup owner c) = [TargetGroupStage]"
| "stage_of (SecurityGroupIngress r) = [SecurityRuleStage]"

definition stages :: "stack \<Rightarrow> stage list" where
  "stages st = concat (map stage_of (children st))"

section \<open>Properties of the validator\<close>

lemma filter_is_missing_empty:
  "filter (is_missing penv) ks = [] \<longleftrightarrow> (\<forall>k\<in>set ks. \<exists>v. penv k = Some v \<and> v \<noteq> [])"
  by (auto simp: filter_empty_conv is_missing_def split: option.splits)

text \<open>
  C2.  For every list of required keys and every environment: if some required key is
  absent or bound to the empty string, the validator fails with a configuration error, and
  the error names that key.  The keys it names are exactly the required keys that are
  absent or empty, so every missing key is named, not only the first.
\<close>

theorem validateEnv_names_every_missing_key:
  assumes "k \<in> set requiredEnvs" and "penv k = None \<or> penv k = Some []"
  shows "\<exists>e. validateEnv requiredEnvs penv = Inl e
           \<and> names_key e k
           \<and> (\<forall>k'. names_key e k' \<longleftrightarrow>
                  k' \<in> set requiredEnvs \<and> (penv k' = None \<or> penv k' = Some []))"
proof -
  let ?missing = "filter (is_missing penv) requiredEnvs"
  from assms have "is_missing penv k"
    by (auto simp: is_missing_def)
  with assms(1) have mem: "k \<in> set ?missing" by simp
  then have ne: "?missing \<noteq> []" by (metis empty_iff empty_set)
  then have res: "validateEnv requiredEnvs penv = Inl (ConfigurationError ?missing)"
    by (simp add: validateEnv_def)
  have "names_key (ConfigurationError ?missing) k' \<longleftrightarrow>
          k' \<in> set requiredEnvs \<and> (penv k' = None \<or> penv k' = Some [])" for k'
    by (auto simp: names_key_def is_missing_def split: option.splits)
  with res mem show ?thesis
    by (simp add: names_key_def)
qed

theorem validateEnv_names_every_missing_key_witness:
  "\<exists>e. validateEnv [''DOCKERHUB_USERNAME'', ''DOCKERHUB_ACCESS_TOKEN'']
          [''DOCKERHUB_ACCESS_TOKEN'' \<mapsto> []] = Inl e
       \<and> names_key e ''DOCKERHUB_USERNAME''
       \<and> (\<forall>k'. names_key e k' \<longleftrightarrow>
              k' \<in> set [''DOCKERHUB_USERNAME'', ''DOCKERHUB_ACCESS_TOKEN''] \<and>
              ([''DOCKERHUB_ACCESS_TOKEN'' \<mapsto> ([]::js_string)] k' = None \<or>
               [''DOCKERHUB_ACCESS_TOKEN'' \<mapsto> ([]::js_string)] k' = Some []))"
proof -
  have h1: "''DOCKERHUB_USERNAME'' \<in> set [''DOCKERHUB_USERNAME'', ''DOCKERHUB_ACCESS_TOKEN'']"
    by simp
  have h2: "[''DOCKERHUB_ACCESS_TOKEN'' \<mapsto> ([]::js_string)] ''DOCKERHUB_USERNAME'' = None \<or>
            [''DOCKERHUB_ACCESS_TOKEN'' \<mapsto> ([]::js_string)] ''DOCKERHUB_USERNAME'' = Some []"
    by simp
  show ?thesis
    by (rule validateEnv_names_every_missing_key
          [of "''DOCKERHUB_USERNAME''" "[''DOCKERHUB_USERNAME'', ''DOCKERHUB_ACCESS_TOKEN'']"
              "[''DOCKERHUB_ACCESS_TOKEN'' \<mapsto> ([]::js_string)]", OF h1 h2])
qed

text \<open>
  C3.  For every list of required keys, each present in the environment with a non-empty
  value, the validator returns a mapping whose keys are exactly the required keys, each
  bound to the value the environment gives it.
\<close>

theorem validateEnv_returns_exactly_required:
  assumes "\<forall>k\<in>set requiredEnvs. \<exists>v. penv k = Some v \<and> v \<noteq> []"
  shows "\<exists>cfg. validateEnv requiredEnvs penv = Inr cfg
           \<and> dom cfg = set requiredEnvs
           \<and> (\<forall>k\<in>set requiredEnvs. cfg k = penv k)"
proof -
  from assms have "filter (is_missing penv) requiredEnvs = []"
    by (simp only: filter_is_missing_empty)
  then have "validateEnv requiredEnvs penv = Inr (penv |` set requiredEnvs)"
    by (simp add: validateEnv_def)
  moreover from assms have "dom (penv |` set requiredEnvs) = set requiredEnvs"
    by (auto simp: restrict_map_def dom_def)
  ultimately show ?thesis by simp
qed

theorem validateEnv_returns_exactly_required_witness:
  "\<exists>cfg. validateEnv [''DOCKERHUB_USERNAME'', ''DOCKERHUB_ACCESS_TOKEN'']
          [''DOCKERHUB_USERNAME'' \<mapsto> lit ''alice'', ''DOCKERHUB_ACCESS_TOKEN'' \<mapsto> lit ''tok123'',
           ''HOME'' \<mapsto> lit ''/root''] = Inr cfg
       \<and> dom cfg = set [''DOCKERHUB_USERNAME'', ''DOCKERHUB_ACCESS_TOKEN'']
       \<and> (\<forall>k\<in>set [''DOCKERHUB_USERNAME'', ''DOCKERHUB_ACCESS_TOKEN''].
            cfg k = [''DOCKERHUB_USERNAME'' \<mapsto> lit ''alice'', ''DOCKERHUB_ACCESS_TOKEN'' \<mapsto> lit ''tok123'',
                     ''HOME'' \<mapsto> lit ''/root''] k)"
proof -
  have h: "\<forall>k\<in>set [''DOCKERHUB_USERNAME'', ''DOCKERHUB_ACCESS_TOKEN''].
             \<exists>v. [''DOCKERHUB_USERNAME'' \<mapsto> lit ''alice'', ''DOCKERHUB_ACCESS_TOKEN'' \<mapsto> lit ''tok123'',
                  ''HOME'' \<mapsto> lit ''/root''] k = Some v \<and> v \<noteq> []"
    by (simp add: lit_def)
  show ?thesis
    by (rule validateEnv_returns_exactly_required [OF h])
qed

text \<open>
  C8.  With \<open>DOCKERHUB_USERNAME=alice\<close> as the whole environment, validating the two
  Docker Hub variables fails; the error names \<open>DOCKERHUB_ACCESS_TOKEN\<close> and does not name
  \<open>DOCKERHUB_USERNAME\<close>.
\<close>

theorem validateEnv_username_only:
  "validateEnv [''DOCKERHUB_USERNAME'', ''DOCKERHUB_ACCESS_TOKEN'']
     [''DOCKERHUB_USERNAME'' \<mapsto> lit ''alice''] = Inl (ConfigurationError [''DOCKERHUB_ACCESS_TOKEN''])
   \<and> names_key (ConfigurationError [''DOCKERHUB_ACCESS_TOKEN'']) ''DOCKERHUB_ACCESS_TOKEN''
   \<and> \<not> names_key (ConfigurationError [''DOCKERHUB_ACCESS_TOKEN'']) ''DOCKERHUB_USERNAME''"
  by (simp add: validateEnv_def is_missing_def names_key_def lit_def)

section \<open>The assembled stack, written out\<close>

text \<open>Adding inbound rules leaves the rest of the stack as it is.\<close>

lemma add_ingress_fields:
  "children (add_ingress r s) = children s"
  "region (add_ingress r s) = region s"
  "account (add_ingress r s) = account s"
  "stack_id (add_ingress r s) = stack_id s"
  by (simp_all add: add_ingress_def)

lemma ingress_rules_add_ingress:
  "ingress_rules (add_ingress r s) =
     (if filter (same_connection r) (ingress_rules s) = [] then ingress_rules s @ [r]
      else ingress_rules s)"
  by (simp add: add_ingress_def)

lemma fold_add_ingress_fields:
  "children (fold add_ingress rs s) = children s"
  "region (fold add_ingress rs s) = region s"
  "account (fold add_ingress rs s) = account s"
  by (induction rs arbitrary: s) (simp_all add: add_ingress_fields)

lemmas stack_ops = MyStack_def MyStack_body_def Stack_def new_def addChild_def Vpc_fromLookup_def
  addIngressRule_def target_port_def load_balancer_of_def connectable_def addListener_def
  addContainer_def addDependency_def loadBalancerTarget_def addTargets_def allowFrom_def
  secretArn_def roleArn_def State_Monad.update_def ECR_PULL_THROUGH_CACHE_PREFIX_def
  add_ingress_fields fold_add_ingress_fields

lemma children_MyStack:
  "children (MyStack env ident sp) =
    [Secret (Construct ''DhCacheRuleSecret''
       \<lparr>secretName = ''ecr-pullthroughcache/dockerhub'',
        secretStringValue = UnsafePlainText (JSON_stringify
          [(''username'', env ''DOCKERHUB_USERNAME''),
           (''accessToken'', env ''DOCKERHUB_ACCESS_TOKEN'')]),
        secret_removalPolicy = DESTROY\<rparr>),
     VpcLookup (Construct ''DefaultVpc'' \<lparr>isDefault = True\<rparr>),
     ApplicationLoadBalancer (Construct ''NginxAlb''
       \<lparr>alb_vpc = ''DefaultVpc'', internetFacing = True\<rparr>),
     ApplicationListener ''NginxAlb'' (Construct ''NginxAlbHttpListener''
       \<lparr>listener_port = 80, listener_protocol = ApplicationProtocol_HTTP\<rparr>),
     Role (Construct ''EcsTaskExecutionRole''
       \<lparr>assumedBy = ServicePrincipal ''ecs-tasks.amazonaws.com'',
        managedPolicies = [AwsManagedPolicyName ''service-role/AmazonECSTaskExecutionRolePolicy'']\<rparr>),
     CfnPullThroughCacheRule (Construct ''DhCacheRule''
       \<lparr>ecrRepositoryPrefix = ''dockerhub'',
        upstreamRegistry = ''docker-hub'',
        upstreamRegistryUrl = ''registry-1.docker.io'',
        credentialArn = Ref ''DhCacheRuleSecret'' ''secretArn''\<rparr>),
     CfnRegistryPolicy (Construct ''DhCacheRegistryPolicy''
       \<lparr>policyText = \<lparr>Version = ''2012-10-17'',
          Statement = [\<lparr>Sid = ''AllowDockerhubCache'', Effect = ''Allow'',
            Principal = AWS (Ref ''EcsTaskExecutionRole'' ''roleArn''),
            Action = [''ecr:CreateRepository'', ''ecr:BatchImportUpstreamImage''],
            Resource = ''arn:aws:ecr:'' @ env_region sp @ '':'' @ env_account sp
              @ '':repository/dockerhub/*''\<rparr>]\<rparr>\<rparr>),
     Repository (Construct ''EcrNginxRepo''
       \<lparr>repositoryName = ''dockerhub/library/nginx'',
        repository_removalPolicy = DESTROY, emptyOnDelete = True\<rparr>),
     Cluster (Construct ''EcsCluster'' \<lparr>cluster_vpc = ''DefaultVpc''\<rparr>),
     TaskDefinition (Construct ''EcsTaskDefinition''
       \<lparr>compatibility = FARGATE, cpu = ''512'', memoryMiB = ''1024'',
        executionRole = ''EcsTaskExecutionRole''\<rparr>),
     ContainerDefinition ''EcsTaskDefinition'' (Construct ''nginx''
       \<lparr>containerImage = FromEcrRepository ''EcrNginxRepo'',
        portMappings = [\<lparr>containerPort = 80, hostPort = 80,
          mapping_protocol = EcsProtocol_TCP, mapping_name = ''http''\<rparr>],
        container_healthCheck = \<lparr>command = [''CMD-SHELL'', ''curl -f http://localhost/ || exit 1''],
          startPeriod = Seconds 10\<rparr>,
        logging = AwsLogs \<lparr>streamPrefix = ''/ecs/nginx'', logRetention = ONE_WEEK\<rparr>\<rparr>),
     FargateService (Construct ''NginxService''
       \<lparr>cluster = ''EcsCluster'', taskDefinition = ''EcsTaskDefinition'',
        desiredCount = 2, assignPublicIp = True\<rparr>),
     Dependency ''NginxService'' ''DhCacheRegistryPolicy'',
     ApplicationTargetGroup ''NginxAlbHttpListener'' (Construct ''HttpTargetGroup''
       \<lparr>targets_port = 80, targets_protocol = ApplicationProtocol_HTTP,
        targets = [LoadBalancerTarget ''NginxService''
          \<lparr>containerName = ''nginx'', target_containerPort = 80,
           target_protocol = EcsProtocol_TCP\<rparr>],
        targets_healthCheck = \<lparr>path = ''/'', health_port = ''80'',
          health_protocol = Protocol_HTTP, healthyHttpCodes = ''200''\<rparr>\<rparr>),
     SecurityGroupIngress
       \<lparr>rule_service = ''NginxService'', rule_peer = Connectable ''NginxAlb'',
        rule_port = Tcp 80,
        rule_description = ''Allow ALB to access Nginx HTTP endpoint''\<rparr>]"
  by (simp add: stack_ops)

lemma decimal_80: "decimal 80 = ''80''"
  by (simp add: decimal.simps)

lemma ingress_rules_MyStack:
  "ingress_rules (MyStack env ident sp) =
    [\<lparr>rule_service = ''NginxAlb'', rule_peer = AnyIpv4, rule_port = Tcp 80,
      rule_description = ''Allow from anyone on port 80''\<rparr>,
     \<lparr>rule_service = ''NginxService'', rule_peer = Connectable ''NginxAlb'',
      rule_port = Tcp 80, rule_description = ''Load balancer to target''\<rparr>]"
  by (simp add: stack_ops ingress_rules_add_ingress same_connection_def decimal_80)

section \<open>Properties of the assembled stack\<close>

text \<open>
  C1.  Whatever the configuration, the assembled stack has an explicit dependency edge from
  the Fargate service \<open>NginxService\<close> to the registry policy \<open>DhCacheRegistryPolicy\<close>
  (it is the only explicit edge), both are declared in the stack, and no data reference of
  any declaration leads to the registry policy: the edge alone orders the service after it.
\<close>

theorem service_depends_on_registry_policy:
  "dependencies (MyStack env ident sp) = [(''NginxService'', ''DhCacheRegistryPolicy'')]
   \<and> map node_id (services (MyStack env ident sp)) = [''NginxService'']
   \<and> map node_id (registry_policies (MyStack env ident sp)) = [''DhCacheRegistryPolicy'']
   \<and> ''DhCacheRegistryPolicy'' \<notin> set (map snd (reference_edges (MyStack env ident sp)))"
  by (simp add: children_MyStack dependencies_def services_def registry_policies_def
      reference_edges_def)

text \<open>
  C5.  Whatever the configuration, the security group of the service \<open>NginxService\<close> has
  exactly one inbound rule in the assembled stack: its peer is the load balancer
  \<open>NginxAlb\<close> and its port is TCP 80, the port the service's container listens on.  The
  rule the source asks for with \<^verbatim>\<open>allowFrom\<close> has this peer and this port.  No rule of
  the service is open to every address; the only rule of the stack that is, belongs to the
  load balancer.
\<close>

theorem service_ingress_only_from_load_balancer:
  "filter (\<lambda>r. rule_service r = ''NginxService'') (ingress_rules (MyStack env ident sp)) =
     [\<lparr>rule_service = ''NginxService'', rule_peer = Connectable ''NginxAlb'',
       rule_port = Tcp 80, rule_description = ''Load balancer to target''\<rparr>]
   \<and> declared_ingress_rules (MyStack env ident sp) =
     [\<lparr>rule_service = ''NginxService'', rule_peer = Connectable ''NginxAlb'',
       rule_port = Tcp 80,
       rule_description = ''Allow ALB to access Nginx HTTP endpoint''\<rparr>]
   \<and> map node_id (services (MyStack env ident sp)) = [''NginxService'']
   \<and> map node_id (load_balancers (MyStack env ident sp)) = [''NginxAlb'']
   \<and> concat (map (\<lambda>(owner, c). map containerPort (portMappings (props c)))
         (containers (MyStack env ident sp))) = [80]
   \<and> filter (\<lambda>r. rule_service r = ''NginxService'' \<and> unrestricted r)
         (ingress_rules (MyStack env ident sp)) = []
   \<and> map rule_service (filter unrestricted (ingress_rules (MyStack env ident sp))) =
     [''NginxAlb'']"
  by (simp add: children_MyStack ingress_rules_MyStack declared_ingress_rules_def services_def
      load_balancers_def containers_def unrestricted_def)

text \<open>
  C6.  Whatever the configuration, the stack has one execution role, one cache rule and one
  registry policy.  The policy has a single statement: it allows the role's ARN, as the only
  principal, the two actions \<open>ecr:CreateRepository\<close> and \<open>ecr:BatchImportUpstreamImage\<close>
  on the repositories of the stack's region and account under the cache rule's prefix.
  The task definition's execution role is that same role.
\<close>

theorem registry_policy_grants_execution_role:
  "\<exists>role rule.
     roles (MyStack env ident sp) = [role]
   \<and> cache_rules (MyStack env ident sp) = [rule]
   \<and> map (\<lambda>c. Statement (policyText (props c))) (registry_policies (MyStack env ident sp)) =
       [[\<lparr>Sid = ''AllowDockerhubCache'', Effect = ''Allow'',
          Principal = AWS (roleArn role),
          Action = [''ecr:CreateRepository'', ''ecr:BatchImportUpstreamImage''],
          Resource = ''arn:aws:ecr:'' @ env_region sp @ '':'' @ env_account sp
            @ '':repository/'' @ ecrRepositoryPrefix (props rule) @ ''/*''\<rparr>]]
   \<and> map (\<lambda>c. executionRole (props c)) (task_definitions (MyStack env ident sp)) =
       [node_id role]"
  by (simp add: children_MyStack roles_def cache_rules_def registry_policies_def
      task_definitions_def roleArn_def)

text \<open>
  C7.  Whatever the configuration, the resource declarations are made in this order:
  secret, network lookup, load balancer and its listener, IAM role, cache rule, registry
  policy, repository, cluster, task definition and its container, service, target group,
  security rule.  Stage by stage, that is the order the specification gives.
\<close>

theorem declarations_in_fixed_order:
  "stages (MyStack env ident sp) =
     [SecretStage, NetworkLookupStage, LoadBalancerStage, LoadBalancerStage, IamRoleStage,
      CacheRuleStage, RegistryPolicyStage, RepositoryStage, ClusterStage,
      TaskDefinitionStage, TaskDefinitionStage, ServiceStage, TargetGroupStage,
      SecurityRuleStage]
   \<and> remdups_adj (stages (MyStack env ident sp)) =
     [SecretStage, NetworkLookupStage, LoadBalancerStage, IamRoleStage,
      CacheRuleStage, RegistryPolicyStage, RepositoryStage, ClusterStage,
      TaskDefinitionStage, ServiceStage, TargetGroupStage, SecurityRuleStage]"
  by (simp add: children_MyStack stages_def)

text \<open>
  C9.  Whatever the configuration, the namespace of the cache rule is \<open>dockerhub\<close>, the
  registry policy's resource is the repositories under that same prefix, and the
  repository's name starts with that same prefix.
\<close>

theorem one_namespace_prefix:
  "\<exists>rule.
     cache_rules (MyStack env ident sp) = [rule]
   \<and> ecrRepositoryPrefix (props rule) = ''dockerhub''
   \<and> concat (map (\<lambda>c. map Resource (Statement (policyText (props c))))
         (registry_policies (MyStack env ident sp))) =
       [''arn:aws:ecr:'' @ env_region sp @ '':'' @ env_account sp
          @ '':repository/'' @ ecrRepositoryPrefix (props rule) @ ''/*'']
   \<and> map (\<lambda>c. repositoryName (props c)) (repositories (MyStack env ident sp)) =
       [ecrRepositoryPrefix (props rule) @ ''/library/nginx'']"
  by (simp add: children_MyStack cache_rules_def registry_policies_def repositories_def)

section \<open>Quoting and reading back\<close>

lemma hex_digit_nth:
  "k < 16 \<Longrightarrow> hex_value (lit ''0123456789abcdef'' ! k) = Some k"
proof -
  assume "k < 16"
  then have "k \<in> {0, 1, 2, 3, 4, 5, 6, 7, 8, 9, 10, 11, 12, 13, 14, 15}"
    by (simp only: insert_iff empty_iff) presburger
  then show ?thesis
    by (auto simp: lit_def hex_value_def)
qed

lemma hex_value_hex_digit: "hex_value (hex_digit n) = Some (n mod 16)"
  by (simp add: hex_digit_def hex_digit_nth)

lemma four_hex_digits:
  fixes x :: nat
  assumes "x < 65536"
  shows "((x div 4096 mod 16 * 16 + x div 256 mod 16) * 16 + x div 16 mod 16) * 16 + x mod 16 = x"
proof -
  define a where "a = x div 16"
  define b where "b = a div 16"
  define c where "c = b div 16"
  have x256: "x div 256 = b"
    using div_mult2_eq [of x 16 16] by (simp add: a_def b_def)
  have x4096: "x div 4096 = c"
    using div_mult2_eq [of x 256 16] by (simp add: x256 c_def)
  from assms have "c < 16"
    unfolding x4096 [symmetric] by simp
  then have "c mod 16 = c" by simp
  moreover have "c * 16 + b mod 16 = b"
    unfolding c_def by simp
  moreover have "b * 16 + a mod 16 = a"
    unfolding b_def by simp
  moreover have "a * 16 + x mod 16 = x"
    unfolding a_def by simp
  ultimately show ?thesis
    by (simp add: x256 x4096 a_def [symmetric])
qed

lemma hex4_unicode_escape:
  "hex4 (hex_digit (unat c div 4096)) (hex_digit (unat c div 256))
        (hex_digit (unat c div 16)) (hex_digit (unat c)) = Some c"
proof -
  let ?x = "unat c"
  have "?x < 65536"
    using unsigned_less [of c, where 'a = nat] by simp
  then have digits:
    "((?x div 4096 mod 16 * 16 + ?x div 256 mod 16) * 16 + ?x div 16 mod 16) * 16 + ?x mod 16 = ?x"
    by (rule four_hex_digits)
  have "hex4 (hex_digit (?x div 4096)) (hex_digit (?x div 256))
          (hex_digit (?x div 16)) (hex_digit ?x) =
        Some (of_nat (((?x div 4096 mod 16 * 16 + ?x div 256 mod 16) * 16
          + ?x div 16 mod 16) * 16 + ?x mod 16))"
    by (simp only: hex4_def hex_value_hex_digit prod.case option.case)
  also have "\<dots> = Some (of_nat ?x)"
    by (simp only: digits)
  also have "\<dots> = Some c"
    by simp
  finally show ?thesis .
qed

lemma json_unescape_unicode_escape:
  "json_unescape (unicode_escape c @ t) = map_option ((#) c) (json_unescape t)"
  by (simp add: unicode_escape_def backslash_def json_unescape.simps hex4_unicode_escape)

lemma json_unescape_copy:
  assumes "c \<noteq> backslash" and "c \<noteq> dquote" and "\<not> c < 0x20"
  shows "json_unescape (c # t) = map_option ((#) c) (json_unescape t)"
  using assms by (simp add: json_unescape.simps backslash_def dquote_def)

lemma json_unescape_escape_unit:
  "json_unescape (json_escape_unit c @ t) = map_option ((#) c) (json_unescape t)"
  by (simp add: json_escape_unit_def json_unescape_unicode_escape json_unescape_copy)
     (simp add: json_unescape.simps short_escape_def backslash_def dquote_def)

lemma high_surrogate_copy:
  "is_high_surrogate c \<Longrightarrow> json_unescape (c # t) = map_option ((#) c) (json_unescape t)"
  by (rule json_unescape_copy)
     (auto simp: is_high_surrogate_def backslash_def dquote_def word_le_nat_alt word_less_nat_alt)

lemma low_surrogate_copy:
  "is_low_surrogate c \<Longrightarrow> json_unescape (c # t) = map_option ((#) c) (json_unescape t)"
  by (rule json_unescape_copy)
     (auto simp: is_low_surrogate_def backslash_def dquote_def word_le_nat_alt word_less_nat_alt)

lemma json_unescape_json_escape: "json_unescape (json_escape s) = Some s"
proof (induction s rule: json_escape.induct)
  case 1
  show ?case by (simp add: json_unescape.simps)
next
  case (2 c)
  have "json_unescape (json_escape_unit c @ []) = map_option ((#) c) (json_unescape [])"
    by (rule json_unescape_escape_unit)
  then show ?case by (simp add: json_unescape.simps)
next
  case (3 c d ds)
  show ?case
  proof (cases "is_high_surrogate c \<and> is_low_surrogate d")
    case True
    with "3.IH"(1) show ?thesis
      by (simp add: high_surrogate_copy low_surrogate_copy)
  next
    case False
    then have "json_escape (c # d # ds) = json_escape_unit c @ json_escape (d # ds)"
      by auto
    moreover from False "3.IH"(2) have "json_unescape (json_escape (d # ds)) = Some (d # ds)"
      by blast
    ultimately show ?thesis
      by (simp only: json_unescape_escape_unit option.map)
  qed
qed

lemma JSON_unquote_JSON_quote: "JSON_unquote (JSON_quote s) = Some s"
  by (simp add: JSON_unquote_def JSON_quote_def dquote_def json_unescape_json_escape)

lemma JSON_stringify_credentials:
  "JSON_stringify [(''username'', Some u), (''accessToken'', Some t)] =
     lit ''{'' @ JSON_quote (lit ''username'') @ lit '':'' @ JSON_quote u @ lit '',''
       @ JSON_quote (lit ''accessToken'') @ lit '':'' @ JSON_quote t @ lit ''}''"
  by (simp add: JSON_stringify_def)

lemmas json_quote_eval = JSON_quote_def lit_def json_escape_unit_def unicode_escape_def
  hex_digit_def is_high_surrogate_def is_low_surrogate_def backslash_def dquote_def

lemma JSON_quote_member_names:
  "JSON_quote (lit ''username'') = dquote # lit ''username'' @ [dquote]"
  "JSON_quote (lit ''accessToken'') = dquote # lit ''accessToken'' @ [dquote]"
  by (simp_all add: json_quote_eval)

text \<open>
  C10.  For a configuration that has both credentials, the stack has one secret; its name
  is the pull-through-cache prefix \<open>ecr-pullthroughcache/\<close> followed by \<open>dockerhub\<close>; its
  value is the plain text of the JSON object with the members \<open>username\<close> and
  \<open>accessToken\<close>, in this order, each holding its credential as a JSON string literal,
  escaped as \<^verbatim>\<open>JSON.stringify\<close> escapes it, that reads back as the credential; and the
  cache rule's credential is the ARN of this secret.
\<close>

theorem secret_holds_credentials:
  assumes "env ''DOCKERHUB_USERNAME'' = Some username"
    and "env ''DOCKERHUB_ACCESS_TOKEN'' = Some accessToken"
  shows "\<exists>secret user_text token_text.
     secrets (MyStack env ident sp) = [secret]
   \<and> node_id secret = ''DhCacheRuleSecret''
   \<and> secretName (props secret) = ECR_PULL_THROUGH_CACHE_PREFIX @ ''dockerhub''
   \<and> secretName (props secret) = ''ecr-pullthroughcache/dockerhub''
   \<and> secretStringValue (props secret) = UnsafePlainText
        (lit ''{'' @ dquote # lit ''username'' @ [dquote] @ lit '':'' @ user_text @ lit '',''
           @ dquote # lit ''accessToken'' @ [dquote] @ lit '':'' @ token_text @ lit ''}'')
   \<and> user_text = JSON_quote username
   \<and> token_text = JSON_quote accessToken
   \<and> JSON_unquote user_text = Some username
   \<and> JSON_unquote token_text = Some accessToken
   \<and> map (\<lambda>c. credentialArn (props c)) (cache_rules (MyStack env ident sp)) =
       [secretArn secret]"
  using assms
  by (simp add: children_MyStack secrets_def cache_rules_def secretArn_def
      ECR_PULL_THROUGH_CACHE_PREFIX_def JSON_stringify_credentials JSON_quote_member_names
      JSON_unquote_JSON_quote)

theorem secret_holds_credentials_witness:
  "\<exists>secret.
     secrets (MyStack
       [''DOCKERHUB_USERNAME'' \<mapsto> lit ''al'' @ [0x22, 0x5C, 0x08, 0x09, 0x0A, 0x0C, 0x0D,
            0x1F, 0xE9, 0x20AC, 0xD83D, 0xDE00, 0xD800],
        ''DOCKERHUB_ACCESS_TOKEN'' \<mapsto> lit ''tok/123'' @ [0xDC00, 0x7F]]
       ''MyStack'' \<lparr>env_account = ''123456789012'', env_region = ''eu-west-1''\<rparr>) = [secret]
   \<and> node_id secret = ''DhCacheRuleSecret''
   \<and> secretName (props secret) = ''ecr-pullthroughcache/dockerhub''
   \<and> secretStringValue (props secret) = UnsafePlainText
        (lit ''{'' @ [0x22] @ lit ''username'' @ [0x22] @ lit '':''
           @ [0x22] @ lit ''al''
           @ [0x5C, 0x22] @ [0x5C, 0x5C]
           @ [0x5C] @ lit ''b'' @ [0x5C] @ lit ''t'' @ [0x5C] @ lit ''n''
           @ [0x5C] @ lit ''f'' @ [0x5C] @ lit ''r''
           @ [0x5C] @ lit ''u001f''
           @ [0xE9, 0x20AC, 0xD83D, 0xDE00]
           @ [0x5C] @ lit ''ud800'' @ [0x22]
           @ lit '','' @ [0x22] @ lit ''accessToken'' @ [0x22] @ lit '':''
           @ [0x22] @ lit ''tok/123'' @ [0x5C] @ lit ''udc00'' @ [0x7F] @ [0x22]
           @ lit ''}'')"
proof -
  let ?user = "lit ''al'' @ [0x22, 0x5C, 0x08, 0x09, 0x0A, 0x0C, 0x0D,
            0x1F, 0xE9, 0x20AC, 0xD83D, 0xDE00, 0xD800] :: js_string"
  let ?token = "lit ''tok/123'' @ [0xDC00, 0x7F] :: js_string"
  let ?env = "[''DOCKERHUB_USERNAME'' \<mapsto> ?user, ''DOCKERHUB_ACCESS_TOKEN'' \<mapsto> ?token]"
  let ?sp = "\<lparr>env_account = ''123456789012'', env_region = ''eu-west-1''\<rparr>"
  have u: "?env ''DOCKERHUB_USERNAME'' = Some ?user" by simp
  have t: "?env ''DOCKERHUB_ACCESS_TOKEN'' = Some ?token" by simp
  have qu: "JSON_quote ?user =
      [0x22] @ lit ''al'' @ [0x5C, 0x22] @ [0x5C, 0x5C]
        @ [0x5C] @ lit ''b'' @ [0x5C] @ lit ''t'' @ [0x5C] @ lit ''n''
        @ [0x5C] @ lit ''f'' @ [0x5C] @ lit ''r'' @ [0x5C] @ lit ''u001f''
        @ [0xE9, 0x20AC, 0xD83D, 0xDE00] @ [0x5C] @ lit ''ud800'' @ [0x22]"
    by (simp add: json_quote_eval)
  have qt: "JSON_quote ?token =
      [0x22] @ lit ''tok/123'' @ [0x5C] @ lit ''udc00'' @ [0x7F] @ [0x22]"
    by (simp add: json_quote_eval)
  from secret_holds_credentials [OF u t, of "''MyStack''" ?sp]
  obtain secret user_text token_text where s:
    "secrets (MyStack ?env ''MyStack'' ?sp) = [secret]"
    "node_id secret = ''DhCacheRuleSecret''"
    "secretName (props secret) = ''ecr-pullthroughcache/dockerhub''"
    "secretStringValue (props secret) = UnsafePlainText
        (lit ''{'' @ dquote # lit ''username'' @ [dquote] @ lit '':'' @ user_text @ lit '',''
           @ dquote # lit ''accessToken'' @ [dquote] @ lit '':'' @ token_text @ lit ''}'')"
    "user_text = JSON_quote ?user"
    "token_text = JSON_quote ?token"
    by blast
  from s(4) have "secretStringValue (props secret) = UnsafePlainText
        (lit ''{'' @ [0x22] @ lit ''username'' @ [0x22] @ lit '':'' @ JSON_quote ?user @ lit '',''
           @ [0x22] @ lit ''accessToken'' @ [0x22] @ lit '':'' @ JSON_quote ?token @ lit ''}'')"
    by (simp add: s(5) s(6) dquote_def)
  then have "secretStringValue (props secret) = UnsafePlainText
        (lit ''{'' @ [0x22] @ lit ''username'' @ [0x22] @ lit '':''
           @ ([0x22] @ lit ''al'' @ [0x5C, 0x22] @ [0x5C, 0x5C]
             @ [0x5C] @ lit ''b'' @ [0x5C] @ lit ''t'' @ [0x5C] @ lit ''n''
             @ [0x5C] @ lit ''f'' @ [0x5C] @ lit ''r'' @ [0x5C] @ lit ''u001f''
             @ [0xE9, 0x20AC, 0xD83D, 0xDE00] @ [0x5C] @ lit ''ud800'' @ [0x22])
           @ lit '','' @ [0x22] @ lit ''accessToken'' @ [0x22] @ lit '':''
           @ ([0x22] @ lit ''tok/123'' @ [0x5C] @ lit ''udc00'' @ [0x7F] @ [0x22])
           @ lit ''}'')"
    by (simp only: qu qt)
  then have v: "secretStringValue (props secret) = UnsafePlainText
        (lit ''{'' @ [0x22] @ lit ''username'' @ [0x22] @ lit '':''
           @ [0x22] @ lit ''al''
           @ [0x5C, 0x22] @ [0x5C, 0x5C]
           @ [0x5C] @ lit ''b'' @ [0x5C] @ lit ''t'' @ [0x5C] @ lit ''n''
           @ [0x5C] @ lit ''f'' @ [0x5C] @ lit ''r''
           @ [0x5C] @ lit ''u001f''
           @ [0xE9, 0x20AC, 0xD83D, 0xDE00]
           @ [0x5C] @ lit ''ud800'' @ [0x22]
           @ lit '','' @ [0x22] @ lit ''accessToken'' @ [0x22] @ lit '':''
           @ [0x22] @ lit ''tok/123'' @ [0x5C] @ lit ''udc00'' @ [0x7F] @ [0x22]
           @ lit ''}'')"
    by (simp only: append_assoc)
  from s(1) s(2) s(3) v show ?thesis
    by (intro exI [of _ secret] conjI)
qed

text \<open>
  C4.  If validating the environment fails, loading the module fails with the same error
  and there is no stack, hence no declared resource.  Conversely a stack only ever comes
  from a configuration in which every required key has a non-empty value: no partial
  configuration reaches the constructor.
\<close>

theorem invalid_environment_declares_nothing:
  "(validateEnv REQUIRED_ENVS penv = Inl e \<longrightarrow>
      load_and_instantiate penv ident sp = Inl e
      \<and> (\<forall>st. load_and_instantiate penv ident sp \<noteq> Inr st))
   \<and> (load_and_instantiate penv ident sp = Inr st \<longrightarrow>
      (\<exists>cfg. validateEnv REQUIRED_ENVS penv = Inr cfg
         \<and> st = MyStack cfg ident sp
         \<and> (\<forall>k\<in>set REQUIRED_ENVS. \<exists>v. cfg k = Some v \<and> v \<noteq> [])))"
proof (intro conjI impI)
  assume "validateEnv REQUIRED_ENVS penv = Inl e"
  then show "load_and_instantiate penv ident sp = Inl e"
    by (simp add: load_and_instantiate_def)
  then show "\<forall>st. load_and_instantiate penv ident sp \<noteq> Inr st"
    by simp
next
  assume built: "load_and_instantiate penv ident sp = Inr st"
  then obtain cfg where cfg: "validateEnv REQUIRED_ENVS penv = Inr cfg"
    and st: "st = MyStack cfg ident sp"
    by (auto simp: load_and_instantiate_def split: sum.splits)
  from cfg have none_missing: "filter (is_missing penv) REQUIRED_ENVS = []"
    and restr: "cfg = penv |` set REQUIRED_ENVS"
    by (auto simp: validateEnv_def Let_def split: if_splits)
  from none_missing have "\<forall>k\<in>set REQUIRED_ENVS. \<exists>v. penv k = Some v \<and> v \<noteq> []"
    by (simp only: filter_is_missing_empty)
  with restr have "\<forall>k\<in>set REQUIRED_ENVS. \<exists>v. cfg k = Some v \<and> v \<noteq> []"
    by (simp add: restrict_map_def)
  with cfg st
  show "\<exists>cfg. validateEnv REQUIRED_ENVS penv = Inr cfg
         \<and> st = MyStack cfg ident sp
         \<and> (\<forall>k\<in>set REQUIRED_ENVS. \<exists>v. cfg k = Some v \<and> v \<noteq> [])"
    by blast
qed

theorem invalid_environment_declares_nothing_witness:
  "validateEnv REQUIRED_ENVS [''DOCKERHUB_USERNAME'' \<mapsto> lit ''alice''] =
     Inl (ConfigurationError [''DOCKERHUB_ACCESS_TOKEN''])
   \<and> load_and_instantiate [''DOCKERHUB_USERNAME'' \<mapsto> lit ''alice''] ''MyStack''
        \<lparr>env_account = ''123456789012'', env_region = ''eu-west-1''\<rparr> =
     Inl (ConfigurationError [''DOCKERHUB_ACCESS_TOKEN''])
   \<and> (\<exists>st cfg.
        load_and_instantiate
          [''DOCKERHUB_USERNAME'' \<mapsto> lit ''alice'', ''DOCKERHUB_ACCESS_TOKEN'' \<mapsto> lit ''tok123'']
          ''MyStack'' \<lparr>env_account = ''123456789012'', env_region = ''eu-west-1''\<rparr> = Inr st
      \<and> st = MyStack cfg ''MyStack'' \<lparr>env_account = ''123456789012'', env_region = ''eu-west-1''\<rparr>
      \<and> (\<forall>k\<in>set REQUIRED_ENVS. \<exists>v. cfg k = Some v \<and> v \<noteq> []))"
proof -
  let ?sp = "\<lparr>env_account = ''123456789012'', env_region = ''eu-west-1''\<rparr>"
  let ?bad = "[''DOCKERHUB_USERNAME'' \<mapsto> lit ''alice'']"
  let ?good = "[''DOCKERHUB_USERNAME'' \<mapsto> lit ''alice'', ''DOCKERHUB_ACCESS_TOKEN'' \<mapsto> lit ''tok123'']"
  have fails: "validateEnv REQUIRED_ENVS ?bad = Inl (ConfigurationError [''DOCKERHUB_ACCESS_TOKEN''])"
    by (simp add: validateEnv_def REQUIRED_ENVS_def is_missing_def lit_def)
  from invalid_environment_declares_nothing
    [of ?bad "ConfigurationError [''DOCKERHUB_ACCESS_TOKEN'']" "''MyStack''" ?sp] fails
  have aborted: "load_and_instantiate ?bad ''MyStack'' ?sp =
      Inl (ConfigurationError [''DOCKERHUB_ACCESS_TOKEN''])"
    by blast
  have built: "load_and_instantiate ?good ''MyStack'' ?sp =
      Inr (MyStack (?good |` set REQUIRED_ENVS) ''MyStack'' ?sp)"
    by (simp add: load_and_instantiate_def validateEnv_def REQUIRED_ENVS_def is_missing_def lit_def)
  from invalid_environment_declares_nothing
    [of ?good _ "''MyStack''" ?sp "MyStack (?good |` set REQUIRED_ENVS) ''MyStack'' ?sp"] built
  have complete: "\<exists>cfg. validateEnv REQUIRED_ENVS ?good = Inr cfg
      \<and> MyStack (?good |` set REQUIRED_ENVS) ''MyStack'' ?sp = MyStack cfg ''MyStack'' ?sp
      \<and> (\<forall>k\<in>set REQUIRED_ENVS. \<exists>v. cfg k = Some v \<and> v \<noteq> [])"
    by blast
  then obtain cfg where
    "MyStack (?good |` set REQUIRED_ENVS) ''MyStack'' ?sp = MyStack cfg ''MyStack'' ?sp"
    "\<forall>k\<in>set REQUIRED_ENVS. \<exists>v. cfg k = Some v \<and> v \<noteq> []"
    by blast
  with built have "\<exists>st cfg. load_and_instantiate ?good ''MyStack'' ?sp = Inr st
      \<and> st = MyStack cfg ''MyStack'' ?sp
      \<and> (\<forall>k\<in>set REQUIRED_ENVS. \<exists>v. cfg k = Some v \<and> v \<noteq> [])"
    by blast
  with fails aborted show ?thesis
    by blast
qed

text \<open>
  The escapes at work: a double quote, a backslash, a line feed, U+001F, a surrogate pair
  and a lone surrogate; and the text read back.
\<close>

lemma JSON_quote_escapes:
  "JSON_quote [0x61, 0x22, 0x5C, 0x0A, 0x1F, 0xD83D, 0xDE00, 0xDFFF] =
     [0x22, 0x61, 0x5C, 0x22, 0x5C, 0x5C, 0x5C, 0x6E, 0x5C, 0x75, 0x30, 0x30, 0x31, 0x66,
      0xD83D, 0xDE00, 0x5C, 0x75, 0x64, 0x66, 0x66, 0x66, 0x22]"
  by (simp add: json_quote_eval)

lemma JSON_unquote_escapes:
  "JSON_unquote
     [0x22, 0x61, 0x5C, 0x22, 0x5C, 0x5C, 0x5C, 0x6E, 0x5C, 0x75, 0x30, 0x30, 0x31, 0x66,
      0xD83D, 0xDE00, 0x5C, 0x75, 0x64, 0x66, 0x66, 0x66, 0x22] =
   Some [0x61, 0x22, 0x5C, 0x0A, 0x1F, 0xD83D, 0xDE00, 0xDFFF]"
  by (simp add: JSON_unquote_def json_unescape.simps hex4_def hex_value_def short_escape_def)

end
